theory Spec2Isabelle
  imports Main "HOL-Library.Word"
begin

section \<open>JavaScript values used by the dialogue manager\<close>

text \<open>
  A JavaScript string is a sequence of UTF-16 code units. The literals of the source that
  the store logic compares or uses as property names are ASCII; \<open>js\<close> embeds them.
\<close>

type_synonym jsstring = "16 word list"

definition js :: "string \<Rightarrow> jsstring" where
  "js s = map of_char s"

text \<open>
  \<open>String.prototype.trim\<close> removes the ECMAScript white space and line terminator code
  units from both ends: TAB, LF, VT, FF, CR, SP, NBSP, U+1680, U+2000..U+200A, U+2028,
  U+2029, U+202F, U+205F, U+3000 and U+FEFF.
\<close>

definition isWhiteSpace :: "16 word \<Rightarrow> bool" where
  "isWhiteSpace c \<longleftrightarrow>
     c = 0x9 \<or> c = 0xA \<or> c = 0xB \<or> c = 0xC \<or> c = 0xD \<or> c = 0x20 \<or> c = 0xA0 \<or>
     c = 0x1680 \<or> (0x2000 \<le> c \<and> c \<le> 0x200A) \<or> c = 0x2028 \<or> c = 0x2029 \<or>
     c = 0x202F \<or> c = 0x205F \<or> c = 0x3000 \<or> c = 0xFEFF"

definition trim :: "jsstring \<Rightarrow> jsstring" where
  "trim s = rev (dropWhile isWhiteSpace (rev (dropWhile isWhiteSpace s)))"

text \<open>A text is blank when it is empty or consists of white space only.\<close>

definition blank :: "jsstring \<Rightarrow> bool" where
  "blank s \<longleftrightarrow> list_all isWhiteSpace s"

text \<open>
  \<open>Date.now().toString()\<close>: the clock reading is an integer number of milliseconds, and
  \<open>Number.prototype.toString\<close> writes an integer of that size in plain decimal.
\<close>

fun digits :: "nat \<Rightarrow> jsstring" where
  "digits n = (if n < 10 then [of_nat (48 + n)] else digits (n div 10) @ [of_nat (48 + n mod 10)])"

declare digits.simps [simp del]

definition toString :: "int \<Rightarrow> jsstring" where
  "toString n = (if n < 0 then 0x2D # digits (nat (- n)) else digits (nat n))"

text \<open>
  The values \<open>JSON.parse\<close> returns and \<open>JSON.stringify\<close> accepts. An object is the list of
  its own properties in property order, read with \<open>map_of\<close>. Only number-ness of a number
  matters to the store logic; its value is kept as an integer.
\<close>

datatype json =
    JNull
  | JBool bool
  | JNum int
  | JStr jsstring
  | JArr "json list"
  | JObj "(jsstring \<times> json) list"

text \<open>
  \<open>JSON.parse\<close>, \<open>JSON.stringify(v)\<close> and \<open>JSON.stringify(v, null, 2)\<close> belong to the
  platform, not to the program: they are parameters of the model. \<open>parse\<close> returns \<open>None\<close>
  where \<open>JSON.parse\<close> throws a SyntaxError. So does the number of arguments the engine
  accepts in one call: a call \<open>f(...xs)\<close> that spreads more than \<open>max_arguments\<close> elements
  throws a RangeError.
\<close>

record platform =
  parse :: "jsstring \<Rightarrow> json option"
  stringify :: "json \<Rightarrow> jsstring"
  stringify_indent :: "json \<Rightarrow> jsstring"
  max_arguments :: nat

datatype exn = SyntaxError | FormatError | StructureError | TypeError | RangeError

text \<open>
  Reading a property \<open>v.k\<close> for a property name \<open>k\<close> that no built-in prototype defines
  (as \<open>id\<close>, \<open>role\<close>, \<open>dialogue\<close>, \<open>timestamp\<close>): a TypeError on \<open>null\<close>, the own property of
  an object, and \<open>undefined\<close> (\<open>None\<close>) otherwise.
\<close>

fun get_prop :: "json \<Rightarrow> jsstring \<Rightarrow> exn + json option" where
  "get_prop JNull k = Inl TypeError"
| "get_prop (JObj kvs) k = Inr (map_of kvs k)"
| "get_prop v k = Inr None"

text \<open>Truthiness, as \<open>item && ...\<close> tests it.\<close>

fun truthy :: "json \<Rightarrow> bool" where
  "truthy JNull = False"
| "truthy (JBool b) = b"
| "truthy (JNum n) = (n \<noteq> 0)"
| "truthy (JStr s) = (s \<noteq> [])"
| "truthy (JArr xs) = True"
| "truthy (JObj kvs) = True"

text \<open>\<open>typeof v.k === 'string'\<close>, evaluated on a value that is not \<open>null\<close>.\<close>

definition typeof_string :: "json \<Rightarrow> jsstring \<Rightarrow> bool" where
  "typeof_string v k = (case get_prop v k of Inr (Some (JStr s)) \<Rightarrow> True | _ \<Rightarrow> False)"

section \<open>The browser's local storage\<close>

text \<open>
  The single slot under the key \<open>ai_dialogues\<close>, and the capacity of the storage:
  \<open>setItem\<close> throws (\<open>None\<close>) when the value does not fit.
\<close>

record storage =
  slot :: "jsstring option"
  quota :: nat

definition getItem :: "storage \<Rightarrow> jsstring option" where
  "getItem s = slot s"

definition setItem :: "storage \<Rightarrow> jsstring \<Rightarrow> storage option" where
  "setItem s v = (if length v \<le> quota s then Some (s\<lparr>slot := Some v\<rparr>) else None)"

section \<open>The dialogue manager\<close>

datatype log_entry = LoadFailed | SaveFailed | ImportFailed exn

datatype msg_type = Error | Success | Info

datatype message =
    EnterDialogueContent
  | DialogueAdded
  | DialogueDeleted
  | NothingToExport
  | DataExported
  | ChooseJsonFile
  | NothingNewToImport
  | Imported nat
  | FileImportFailed exn
  | FileReadFailed
  | NothingToClear
  | AllCleared

text \<open>
  The state of a \<open>DialogueManager\<close>: the array \<open>this.dialogues\<close>, the local storage, the
  lines written with \<open>console.error\<close> and the notifications raised with \<open>showMessage\<close>,
  oldest first. Rendering into the page is not part of the model.
\<close>

record manager =
  dialogues :: "json list"
  storage :: storage
  console :: "log_entry list"
  messages :: "(message \<times> msg_type) list"

definition showMessage :: "message \<Rightarrow> msg_type \<Rightarrow> manager \<Rightarrow> manager" where
  "showMessage msg ty m = m\<lparr>messages := messages m @ [(msg, ty)]\<rparr>"

definition console_error :: "log_entry \<Rightarrow> manager \<Rightarrow> manager" where
  "console_error e m = m\<lparr>console := console m @ [e]\<rparr>"

text \<open>
  \<open>loadDialogues\<close>: the stored text is parsed when it is present and not the empty string;
  a failed parse is logged and gives the empty array. The result is whatever value the
  text parses to.
\<close>

definition loadDialogues :: "platform \<Rightarrow> storage \<Rightarrow> json \<times> log_entry list" where
  "loadDialogues J s =
     (case getItem s of
        None \<Rightarrow> (JArr [], [])
      | Some stored \<Rightarrow>
          if stored = [] then (JArr [], [])
          else (case parse J stored of
                  Some v \<Rightarrow> (v, [])
                | None \<Rightarrow> (JArr [], [LoadFailed])))"

text \<open>\<open>saveDialogues\<close>: a failed write is caught and logged; nothing is returned.\<close>

definition saveDialogues :: "platform \<Rightarrow> manager \<Rightarrow> manager" where
  "saveDialogues J m =
     (case setItem (storage m) (stringify J (JArr (dialogues m))) of
        Some s' \<Rightarrow> m\<lparr>storage := s'\<rparr>
      | None \<Rightarrow> console_error SaveFailed m)"

text \<open>
  \<open>addDialogue\<close>: \<open>now\<close> is the reading of \<open>Date.now()\<close> and \<open>stamp\<close> the text of
  \<open>new Date().toLocaleString('zh-CN')\<close>.
\<close>

definition newDialogue :: "jsstring \<Rightarrow> jsstring \<Rightarrow> jsstring \<Rightarrow> int \<Rightarrow> jsstring \<Rightarrow> json" where
  "newDialogue role dialogueText thinkText now stamp =
     JObj [(js ''id'', JStr (toString now)),
           (js ''role'', JStr role),
           (js ''dialogue'', JStr (trim dialogueText)),
           (js ''think'', JStr (if role = js ''responder'' then trim thinkText else [])),
           (js ''timestamp'', JStr stamp)]"

definition addDialogue ::
  "platform \<Rightarrow> jsstring \<Rightarrow> jsstring \<Rightarrow> jsstring \<Rightarrow> int \<Rightarrow> jsstring \<Rightarrow> manager \<Rightarrow> bool \<times> manager" where
  "addDialogue J role dialogueText thinkText now stamp m =
     (if trim dialogueText = [] then (False, showMessage EnterDialogueContent Error m)
      else
        (True,
         showMessage DialogueAdded Success
           (saveDialogues J
              (m\<lparr>dialogues := dialogues m @ [newDialogue role dialogueText thinkText now stamp]\<rparr>))))"

text \<open>
  \<open>deleteDialogue\<close>: \<open>confirmed\<close> is the answer to the confirmation prompt. The filter keeps
  a dialogue when \<open>dialogue.id !== id\<close>; reading \<open>id\<close> of \<open>null\<close> throws, and the exception
  leaves the method before anything is assigned.
\<close>

fun filter_other_ids :: "jsstring \<Rightarrow> json list \<Rightarrow> exn + json list" where
  "filter_other_ids i [] = Inr []"
| "filter_other_ids i (d # ds) =
     (case get_prop d (js ''id'') of
        Inl e \<Rightarrow> Inl e
      | Inr v \<Rightarrow>
          (case filter_other_ids i ds of
             Inl e \<Rightarrow> Inl e
           | Inr ds' \<Rightarrow> Inr (if v \<noteq> Some (JStr i) then d # ds' else ds')))"

definition deleteDialogue :: "platform \<Rightarrow> jsstring \<Rightarrow> bool \<Rightarrow> manager \<Rightarrow> exn + manager" where
  "deleteDialogue J i confirmed m =
     (if confirmed then
        (case filter_other_ids i (dialogues m) of
           Inl e \<Rightarrow> Inl e
         | Inr ds \<Rightarrow> Inr (showMessage DialogueDeleted Success (saveDialogues J (m\<lparr>dialogues := ds\<rparr>))))
      else Inr m)"

text \<open>\<open>exportData\<close> returns the text offered for download, if any.\<close>

definition exportData :: "platform \<Rightarrow> manager \<Rightarrow> jsstring option \<times> manager" where
  "exportData J m =
     (if length (dialogues m) = 0 then (None, showMessage NothingToExport Error m)
      else (Some (stringify_indent J (JArr (dialogues m))), showMessage DataExported Success m))"

text \<open>
  \<open>handleFileImport\<close>. A selected file has a media type and, once read, a text (\<open>None\<close>
  when reading fails and \<open>onerror\<close> fires).
\<close>

record selected_file =
  ftype :: jsstring
  ftext :: "jsstring option"

definition isValid :: "json \<Rightarrow> bool" where
  "isValid item \<longleftrightarrow>
     truthy item \<and>
     typeof_string item (js ''id'') \<and>
     typeof_string item (js ''role'') \<and>
     typeof_string item (js ''dialogue'') \<and>
     typeof_string item (js ''timestamp'')"

text \<open>\<open>this.dialogues.map(d => d.id)\<close>; \<open>None\<close> stands for \<open>undefined\<close>.\<close>

fun map_id :: "json list \<Rightarrow> exn + json option list" where
  "map_id [] = Inr []"
| "map_id (d # ds) =
     (case get_prop d (js ''id'') of
        Inl e \<Rightarrow> Inl e
      | Inr v \<Rightarrow> (case map_id ds of Inl e \<Rightarrow> Inl e | Inr vs \<Rightarrow> Inr (v # vs)))"

text \<open>
  \<open>!existingIds.has(item.id)\<close> on an item that passed \<open>isValid\<close>, so that \<open>item.id\<close> is a
  string: the set holds it exactly when some existing \<open>id\<close> is the same string.
\<close>

definition is_new :: "json option list \<Rightarrow> json \<Rightarrow> bool" where
  "is_new existingIds item \<longleftrightarrow>
     (case get_prop item (js ''id'') of Inr v \<Rightarrow> v \<notin> set existingIds | Inl e \<Rightarrow> False)"

text \<open>
  The body of the \<open>try\<close> block of the \<open>onload\<close> handler. The new dialogues are passed to
  \<open>unshift\<close> as spread arguments, \<open>this.dialogues.unshift(...newDialogues)\<close>: the call throws
  before it changes the array when they are more than the engine accepts.
\<close>

definition import_try :: "platform \<Rightarrow> jsstring \<Rightarrow> manager \<Rightarrow> exn + manager" where
  "import_try J result m =
     (case parse J result of
        None \<Rightarrow> Inl SyntaxError
      | Some importedData \<Rightarrow>
          (case importedData of
             JArr items \<Rightarrow>
               if \<not> list_all isValid items then Inl StructureError
               else
                 (case map_id (dialogues m) of
                    Inl e \<Rightarrow> Inl e
                  | Inr existingIds \<Rightarrow>
                      let newDialogues = filter (is_new existingIds) items in
                      if length newDialogues = 0 then Inr (showMessage NothingNewToImport Info m)
                      else if max_arguments J < length newDialogues then Inl RangeError
                      else
                        Inr (showMessage (Imported (length newDialogues)) Success
                               (saveDialogues J (m\<lparr>dialogues := newDialogues @ dialogues m\<rparr>))))
           | _ \<Rightarrow> Inl FormatError))"

definition onload :: "platform \<Rightarrow> jsstring \<Rightarrow> manager \<Rightarrow> manager" where
  "onload J result m =
     (case import_try J result m of
        Inr m' \<Rightarrow> m'
      | Inl e \<Rightarrow> showMessage (FileImportFailed e) Error (console_error (ImportFailed e) m))"

definition handleFileImport :: "platform \<Rightarrow> selected_file option \<Rightarrow> manager \<Rightarrow> manager" where
  "handleFileImport J f m =
     (case f of
        None \<Rightarrow> m
      | Some fl \<Rightarrow>
          if ftype fl \<noteq> js ''application/json'' then showMessage ChooseJsonFile Error m
          else (case ftext fl of
                  None \<Rightarrow> showMessage FileReadFailed Error m
                | Some result \<Rightarrow> onload J result m))"

definition clearAllData :: "platform \<Rightarrow> bool \<Rightarrow> manager \<Rightarrow> manager" where
  "clearAllData J confirmed m =
     (if length (dialogues m) = 0 then showMessage NothingToClear Error m
      else if confirmed then
        showMessage AllCleared Success (saveDialogues J (m\<lparr>dialogues := []\<rparr>))
      else m)"

section \<open>Sequences of operations\<close>

text \<open>
  One user action on the manager. An exception that leaves \<open>deleteDialogue\<close> reaches the
  event loop; the manager is as it was before the call.
\<close>

datatype operation =
    Append jsstring jsstring jsstring int jsstring
  | Delete jsstring bool
  | ImportBatch "selected_file option"
  | Export
  | Clear bool

fun apply_op :: "platform \<Rightarrow> operation \<Rightarrow> manager \<Rightarrow> manager" where
  "apply_op J (Append role dialogueText thinkText now stamp) m =
     snd (addDialogue J role dialogueText thinkText now stamp m)"
| "apply_op J (Delete i confirmed) m =
     (case deleteDialogue J i confirmed m of Inl e \<Rightarrow> m | Inr m' \<Rightarrow> m')"
| "apply_op J (ImportBatch f) m = handleFileImport J f m"
| "apply_op J Export m = snd (exportData J m)"
| "apply_op J (Clear confirmed) m = clearAllData J confirmed m"

fun run :: "platform \<Rightarrow> operation list \<Rightarrow> manager \<Rightarrow> manager" where
  "run J [] m = m"
| "run J (op # ops) m = run J ops (apply_op J op m)"

text \<open>The manager over a storage that holds no snapshot, with capacity \<open>q\<close>.\<close>

definition fresh :: "nat \<Rightarrow> manager" where
  "fresh q = \<lparr>dialogues = [], storage = \<lparr>slot = None, quota = q\<rparr>, console = [], messages = []\<rparr>"

section \<open>Notions of the specification\<close>

text \<open>
  Structural validity of an import candidate in the words of the specification: an object
  with \<open>id\<close>, \<open>role\<close>, \<open>dialogue\<close> and \<open>timestamp\<close> all present as text.
\<close>

fun is_text :: "json option \<Rightarrow> bool" where
  "is_text (Some (JStr s)) = True"
| "is_text _ = False"

fun structurally_valid :: "json \<Rightarrow> bool" where
  "structurally_valid (JObj kvs) =
     list_all (\<lambda>k. is_text (map_of kvs k)) [js ''id'', js ''role'', js ''dialogue'', js ''timestamp'']"
| "structurally_valid _ = False"

text \<open>
  A parsed import is malformed when it is not a sequence or one of its candidates is not
  structurally valid.
\<close>

fun malformed :: "json \<Rightarrow> bool" where
  "malformed (JArr items) = (\<not> list_all structurally_valid items)"
| "malformed _ = True"

text \<open>The id of a candidate already exists in the store.\<close>

definition id_exists :: "json list \<Rightarrow> json \<Rightarrow> bool" where
  "id_exists store c \<longleftrightarrow> list_ex (\<lambda>d. get_prop d (js ''id'') = get_prop c (js ''id'')) store"

text \<open>The dialogue of a stored record is a text that is neither empty nor white space only.\<close>

definition dialogue_not_blank :: "json \<Rightarrow> bool" where
  "dialogue_not_blank d \<longleftrightarrow>
     (case get_prop d (js ''dialogue'') of Inr (Some (JStr s)) \<Rightarrow> \<not> blank s | _ \<Rightarrow> False)"

text \<open>
  An import operation whose file parses to a sequence offers only candidates with such a
  dialogue; every other operation satisfies the predicate.
\<close>

fun offers_no_blank :: "platform \<Rightarrow> operation \<Rightarrow> bool" where
  "offers_no_blank J (ImportBatch (Some f)) =
     (case ftext f of
        None \<Rightarrow> True
      | Some t \<Rightarrow>
          (case parse J t of
             Some (JArr items) \<Rightarrow> list_all dialogue_not_blank items
           | _ \<Rightarrow> True))"
| "offers_no_blank J _ = True"

text \<open>The ids of the stored records, as they are read.\<close>

definition ids :: "json list \<Rightarrow> (exn + json option) list" where
  "ids store = map (\<lambda>d. get_prop d (js ''id'')) store"

section \<open>Concrete inputs\<close>

text \<open>
  In the closed examples the JSON functions are given by tables: the texts whose values are
  known, and the values whose compact and indented texts are known. The engine of the
  examples accepts 65536 arguments in one call.
\<close>

definition json_tables ::
  "(jsstring \<times> json) list \<Rightarrow> (json \<times> jsstring) list \<Rightarrow> (json \<times> jsstring) list \<Rightarrow> platform" where
  "json_tables p c i =
     \<lparr>parse = map_of p,
      stringify = (\<lambda>v. case map_of c v of Some t \<Rightarrow> t | None \<Rightarrow> []),
      stringify_indent = (\<lambda>v. case map_of i v of Some t \<Rightarrow> t | None \<Rightarrow> []),
      max_arguments = 65536\<rparr>"

definition record_of :: "jsstring \<Rightarrow> jsstring \<Rightarrow> jsstring \<Rightarrow> jsstring \<Rightarrow> jsstring \<Rightarrow> json" where
  "record_of i role d think stamp =
     JObj [(js ''id'', JStr i), (js ''role'', JStr role), (js ''dialogue'', JStr d),
           (js ''think'', JStr think), (js ''timestamp'', JStr stamp)]"

definition json_file :: "jsstring \<Rightarrow> selected_file" where
  "json_file txt = \<lparr>ftype = js ''application/json'', ftext = Some txt\<rparr>"

text \<open>Sample records: role \<open>user\<close>, no reasoning, timestamp \<open>t\<close>.\<close>

definition sample :: "jsstring \<Rightarrow> jsstring \<Rightarrow> json" where
  "sample i d = record_of i (js ''user'') d [] (js ''t'')"

text \<open>Three well-shaped candidates and one without \<open>dialogue\<close>.\<close>

definition malformed_text :: jsstring where
  \<open>malformed_text = js ''[{"id":"1","role":"user","dialogue":"a","think":"","timestamp":"t"},{"id":"2","role":"user","dialogue":"b","think":"","timestamp":"t"},{"id":"3","role":"user","dialogue":"c","think":"","timestamp":"t"},{"id":"4","role":"user","timestamp":"t"}]''\<close>

definition malformed_batch :: json where
  "malformed_batch =
     JArr [sample (js ''1'') (js ''a''), sample (js ''2'') (js ''b''), sample (js ''3'') (js ''c''),
           JObj [(js ''id'', JStr (js ''4'')), (js ''role'', JStr (js ''user'')),
                 (js ''timestamp'', JStr (js ''t''))]]"

text \<open>Three well-shaped candidates, the second with the id \<open>1\<close>.\<close>

definition batch_text :: jsstring where
  \<open>batch_text = js ''[{"id":"2","role":"user","dialogue":"b","think":"","timestamp":"t"},{"id":"1","role":"user","dialogue":"z","think":"","timestamp":"t"},{"id":"3","role":"user","dialogue":"c","think":"","timestamp":"t"}]''\<close>

definition batch :: "json list" where
  "batch = [sample (js ''2'') (js ''b''), sample (js ''1'') (js ''z''), sample (js ''3'') (js ''c'')]"

text \<open>One well-shaped candidate whose dialogue is the empty text.\<close>

definition blank_text :: jsstring where
  \<open>blank_text = js ''[{"id":"1","role":"user","dialogue":"","think":"","timestamp":"t"}]''\<close>

definition blank_batch :: "json list" where
  "blank_batch = [sample (js ''1'') []]"

text \<open>A store of two records and its indented export.\<close>

definition two_records :: "json list" where
  "two_records = [sample (js ''1'') (js ''a''), sample (js ''9'') (js ''q'')]"

definition two_records_export :: jsstring where
  \<open>two_records_export = js ''[\<newline>  {\<newline>    "id": "1",\<newline>    "role": "user",\<newline>    "dialogue": "a",\<newline>    "think": "",\<newline>    "timestamp": "t"\<newline>  },\<newline>  {\<newline>    "id": "9",\<newline>    "role": "user",\<newline>    "dialogue": "q",\<newline>    "think": "",\<newline>    "timestamp": "t"\<newline>  }\<newline>]''\<close>


text \<open>A sequence of 65537 copies of one well-shaped candidate, and its compact text.\<close>

definition large_batch :: "json list" where
  "large_batch = replicate 65537 (sample (js ''1'') (js ''a''))"

definition large_batch_text :: jsstring where
  \<open>large_batch_text =
     js ''['' @
     concat (replicate 65536
       (js ''{"id":"1","role":"user","dialogue":"a","think":"","timestamp":"t"},'')) @
     js ''{"id":"1","role":"user","dialogue":"a","think":"","timestamp":"t"}]''\<close>



section \<open>Basic facts\<close>

lemma dialogues_showMessage [simp]: "dialogues (showMessage msg ty m) = dialogues m"
  by (simp add: showMessage_def)

lemma storage_showMessage [simp]: "storage (showMessage msg ty m) = storage m"
  by (simp add: showMessage_def)

lemma console_showMessage [simp]: "console (showMessage msg ty m) = console m"
  by (simp add: showMessage_def)

lemma messages_showMessage [simp]:
  "messages (showMessage msg ty m) = messages m @ [(msg, ty)]"
  by (simp add: showMessage_def)

lemma dialogues_saveDialogues [simp]: "dialogues (saveDialogues J m) = dialogues m"
  by (simp add: saveDialogues_def console_error_def split: option.split)

lemma messages_saveDialogues [simp]: "messages (saveDialogues J m) = messages m"
  by (simp add: saveDialogues_def console_error_def split: option.split)

lemma dropWhile_all_Nil:
  "(\<forall>x\<in>set (dropWhile P xs). P x) \<longleftrightarrow> dropWhile P xs = []"
proof
  assume a: "\<forall>x\<in>set (dropWhile P xs). P x"
  show "dropWhile P xs = []"
  proof (rule ccontr)
    assume ne: "dropWhile P xs \<noteq> []"
    then have "\<not> P (hd (dropWhile P xs))" by (rule hd_dropWhile)
    moreover from ne have "hd (dropWhile P xs) \<in> set (dropWhile P xs)" by simp
    ultimately show False using a by blast
  qed
qed (auto dest: set_dropWhileD)

lemma blank_trim: "blank s \<longleftrightarrow> trim s = []"
  by (simp add: blank_def trim_def list_all_iff dropWhile_eq_Nil_conv dropWhile_all_Nil)

lemma trim_not_blank: "trim s \<noteq> [] \<Longrightarrow> \<not> blank (trim s)"
proof -
  assume ne: "trim s \<noteq> []"
  let ?t = "dropWhile isWhiteSpace (rev (dropWhile isWhiteSpace s))"
  from ne have "?t \<noteq> []" by (simp add: trim_def)
  then have "\<not> isWhiteSpace (hd ?t)" by (rule hd_dropWhile)
  moreover from \<open>?t \<noteq> []\<close> have "hd ?t \<in> set (trim s)" by (simp add: trim_def)
  ultimately show ?thesis by (auto simp: blank_def list_all_iff)
qed

lemma newDialogue_id [simp]:
  "get_prop (newDialogue role dialogueText thinkText now stamp) (js ''id'') = Inr (Some (JStr (toString now)))"
  by (simp add: newDialogue_def js_def)

lemma newDialogue_dialogue [simp]:
  "get_prop (newDialogue role dialogueText thinkText now stamp) (js ''dialogue'')
     = Inr (Some (JStr (trim dialogueText)))"
  by (simp add: newDialogue_def js_def)

lemma newDialogue_think [simp]:
  "get_prop (newDialogue role dialogueText thinkText now stamp) (js ''think'')
     = Inr (Some (JStr (if role = js ''responder'' then trim thinkText else [])))"
  by (simp add: newDialogue_def js_def)

lemma dialogues_console_error [simp]: "dialogues (console_error e m) = dialogues m"
  by (simp add: console_error_def)

lemma storage_console_error [simp]: "storage (console_error e m) = storage m"
  by (simp add: console_error_def)

lemma messages_console_error [simp]: "messages (console_error e m) = messages m"
  by (simp add: console_error_def)

lemma structurally_valid_sample [simp]: "structurally_valid (sample i d)"
  by (simp add: sample_def record_of_def js_def)

lemma sample_not_null [simp]: "sample i d \<noteq> JNull" "JNull \<noteq> sample i d"
  by (simp_all add: sample_def record_of_def)

lemma id_sample [simp]: "get_prop (sample i d) (js ''id'') = Inr (Some (JStr i))"
  by (simp add: sample_def record_of_def)

lemma dialogue_sample [simp]: "get_prop (sample i d) (js ''dialogue'') = Inr (Some (JStr d))"
  by (simp add: sample_def record_of_def js_def)

lemma json_file_simps [simp]:
  "ftype (json_file t) = js ''application/json''" "ftext (json_file t) = Some t"
  by (simp_all add: json_file_def)

lemma parse_json_tables [simp]: "parse (json_tables p c i) = map_of p"
  by (simp add: json_tables_def)

lemma max_arguments_json_tables [simp]: "max_arguments (json_tables p c i) = 65536"
  by (simp add: json_tables_def)





lemma trim_a: "trim (js ''a'') = js ''a''" and trim_b: "trim (js ''b'') = js ''b''"
  by (simp_all add: trim_def js_def isWhiteSpace_def)

lemma js_nonempty: "js ''a'' \<noteq> []" "js ''b'' \<noteq> []"
  by (simp_all add: js_def)

section \<open>Appending a dialogue\<close>

text \<open>
  Claim C9. Whenever \<open>addDialogue\<close> accepts the dialogue text, the record it appends has an
  empty \<open>think\<close> field for every role other than \<open>responder\<close> (whatever the reasoning text
  is), and the trimmed reasoning text for the role \<open>responder\<close>.
\<close>

theorem addDialogue_reasoning:
  "trim dialogueText \<noteq> [] \<Longrightarrow>
   (case addDialogue J role dialogueText thinkText now stamp m of
      (ok, m') \<Rightarrow>
        (\<exists>d. dialogues m' = dialogues m @ [d] \<and>
             get_prop d (js ''think'') =
               Inr (Some (JStr (if role = js ''responder'' then trim thinkText else [])))))"
  by (simp add: addDialogue_def)

theorem addDialogue_reasoning_witness:
  "trim (js ''What is 2+2?'') \<noteq> [] \<and>
   (case addDialogue (json_tables [] [] []) (js ''questioner'') (js ''What is 2+2?'') (js ''hidden'')
           5 (js ''t'') (fresh 10) of
      (ok, m') \<Rightarrow>
        (\<exists>d. dialogues m' = [d] \<and> get_prop d (js ''think'') = Inr (Some (JStr [])))) \<and>
   trim (js ''4'') \<noteq> [] \<and>
   (case addDialogue (json_tables [] [] []) (js ''responder'') (js ''4'') (js ''  basic arithmetic '')
           5 (js ''t'') (fresh 10) of
      (ok, m') \<Rightarrow>
        (\<exists>d. dialogues m' = [d] \<and>
             get_prop d (js ''think'') = Inr (Some (JStr (js ''basic arithmetic'')))))"
proof -
  have h: "trim (js ''What is 2+2?'') \<noteq> []"
    by (simp add: trim_def js_def isWhiteSpace_def)
  have r: "js ''questioner'' \<noteq> js ''responder''"
    by (simp add: js_def)
  have h': "trim (js ''4'') \<noteq> []"
    by (simp add: trim_def js_def isWhiteSpace_def)
  have t: "trim (js ''  basic arithmetic '') = js ''basic arithmetic''"
    by (simp add: trim_def js_def isWhiteSpace_def)
  show ?thesis
    using h r h' t
      addDialogue_reasoning [OF h, where J = "json_tables [] [] []"
        and role = "js ''questioner''" and thinkText = "js ''hidden''" and now = 5
        and stamp = "js ''t''" and m = "fresh 10"]
      addDialogue_reasoning [OF h', where J = "json_tables [] [] []"
        and role = "js ''responder''" and thinkText = "js ''  basic arithmetic ''" and now = 5
        and stamp = "js ''t''" and m = "fresh 10"]
    by (simp add: fresh_def)
qed






section \<open>Importing a file\<close>

lemma typeof_string_obj: "typeof_string (JObj kvs) k = is_text (map_of kvs k)"
proof (cases "map_of kvs k")
  case None
  then show ?thesis by (simp add: typeof_string_def)
next
  case (Some v)
  then show ?thesis by (cases v) (simp_all add: typeof_string_def)
qed

lemma isValid_structurally_valid: "isValid c \<longleftrightarrow> structurally_valid c"
  by (cases c) (simp_all add: isValid_def typeof_string_obj, simp_all add: typeof_string_def)

lemma list_all_isValid: "list_all isValid items = list_all structurally_valid items"
  by (simp add: isValid_structurally_valid [abs_def])

lemma get_prop_Inl: "get_prop d k = Inl e \<longleftrightarrow> d = JNull \<and> e = TypeError"
  by (cases d) auto

lemma map_id_total: "JNull \<notin> set ds \<Longrightarrow> \<exists>vs. map_id ds = Inr vs"
proof (induction ds)
  case Nil
  then show ?case by simp
next
  case (Cons d ds)
  then obtain vs where "map_id ds = Inr vs" by auto
  moreover from Cons.prems obtain v where "get_prop d (js ''id'') = Inr v"
    by (cases "get_prop d (js ''id'')") (auto simp: get_prop_Inl)
  ultimately show ?case by simp
qed

lemma map_id_set:
  "map_id ds = Inr vs \<Longrightarrow> v \<in> set vs \<longleftrightarrow> (\<exists>d\<in>set ds. get_prop d (js ''id'') = Inr v)"
proof (induction ds arbitrary: vs)
  case Nil
  then show ?case by auto
next
  case (Cons d ds)
  then show ?case by (auto split: sum.splits)
qed

lemma is_new_id_exists:
  assumes "map_id ds = Inr vs" and "c \<noteq> JNull"
  shows "is_new vs c \<longleftrightarrow> \<not> id_exists ds c"
proof -
  from assms(2) obtain v where v: "get_prop c (js ''id'') = Inr v"
    by (cases "get_prop c (js ''id'')") (auto simp: get_prop_Inl)
  show ?thesis
    using map_id_set [OF assms(1), of v]
    by (auto simp: is_new_def id_exists_def v list_ex_iff)
qed

lemma structurally_valid_not_null: "structurally_valid c \<Longrightarrow> c \<noteq> JNull"
  by auto

lemma import_try_Inr:
  "import_try J t m = Inr m' \<Longrightarrow>
   \<exists>items vs. parse J t = Some (JArr items) \<and> list_all isValid items \<and>
     map_id (dialogues m) = Inr vs \<and> dialogues m' = filter (is_new vs) items @ dialogues m"
  by (auto simp: import_try_def Let_def split: option.splits json.splits if_splits sum.splits)

lemma import_try_valid:
  assumes "parse J t = Some (JArr items)" and "list_all structurally_valid items"
    and "JNull \<notin> set (dialogues m)"
    and "length (filter (\<lambda>c. \<not> id_exists (dialogues m) c) items) \<le> max_arguments J"
  shows "\<exists>m'. import_try J t m = Inr m' \<and>
           dialogues m' = filter (\<lambda>c. \<not> id_exists (dialogues m) c) items @ dialogues m"
proof -
  from assms(3) obtain vs where vs: "map_id (dialogues m) = Inr vs"
    using map_id_total by blast
  have "filter (is_new vs) items = filter (\<lambda>c. \<not> id_exists (dialogues m) c) items"
  proof (rule filter_cong [OF refl])
    fix c assume "c \<in> set items"
    with assms(2) have "c \<noteq> JNull"
      by (auto simp: list_all_iff dest: structurally_valid_not_null)
    then show "is_new vs c = (\<not> id_exists (dialogues m) c)"
      by (rule is_new_id_exists [OF vs])
  qed
  then show ?thesis
    using assms(1,2,4) vs by (simp add: import_try_def Let_def list_all_isValid)
qed

lemma import_try_too_many:
  assumes "parse J t = Some (JArr items)" and "list_all structurally_valid items"
    and "JNull \<notin> set (dialogues m)"
    and "max_arguments J < length (filter (\<lambda>c. \<not> id_exists (dialogues m) c) items)"
  shows "import_try J t m = Inl RangeError"
proof -
  from assms(3) obtain vs where vs: "map_id (dialogues m) = Inr vs"
    using map_id_total by blast
  have "filter (is_new vs) items = filter (\<lambda>c. \<not> id_exists (dialogues m) c) items"
  proof (rule filter_cong [OF refl])
    fix c assume "c \<in> set items"
    with assms(2) have "c \<noteq> JNull"
      by (auto simp: list_all_iff dest: structurally_valid_not_null)
    then show "is_new vs c = (\<not> id_exists (dialogues m) c)"
      by (rule is_new_id_exists [OF vs])
  qed
  then show ?thesis
    using assms(1,2,4) vs by (auto simp: import_try_def Let_def list_all_isValid)
qed

lemma import_try_malformed:
  assumes "parse J t = Some v" and "malformed v"
  shows "\<exists>e. import_try J t m = Inl e"
  using assms by (cases v) (simp_all add: import_try_def list_all_isValid)

lemma onload_Inl:
  "import_try J t m = Inl e \<Longrightarrow>
   onload J t m = showMessage (FileImportFailed e) Error (console_error (ImportFailed e) m)"
  by (simp add: onload_def)

text \<open>
  Claim C3. When the text of the selected file parses to a value that is not a sequence, or
  to a sequence with at least one candidate that is not structurally valid (not an object
  with \<open>id\<close>, \<open>role\<close>, \<open>dialogue\<close> and \<open>timestamp\<close> present as text), \<open>handleFileImport\<close>
  leaves the sequence and the storage as they were and raises an error notification:
  nothing of the batch is imported.
\<close>

theorem import_malformed_rejected:
  assumes "ftext f = Some t" and "parse J t = Some v" and "malformed v"
  shows "dialogues (handleFileImport J (Some f) m) = dialogues m \<and>
         storage (handleFileImport J (Some f) m) = storage m \<and>
         (\<exists>msg. messages (handleFileImport J (Some f) m) = messages m @ [(msg, Error)])"
proof -
  from assms(2,3) obtain e where "import_try J t m = Inl e"
    using import_try_malformed by blast
  then show ?thesis
    using assms(1) by (simp add: handleFileImport_def onload_Inl)
qed

lemma handleFileImport_valid:
  assumes "ftype f = js ''application/json''" and "ftext f = Some t"
    and "parse J t = Some (JArr items)" and "list_all structurally_valid items"
    and "JNull \<notin> set (dialogues m)"
    and "length (filter (\<lambda>c. \<not> id_exists (dialogues m) c) items) \<le> max_arguments J"
  shows "dialogues (handleFileImport J (Some f) m)
           = filter (\<lambda>c. \<not> id_exists (dialogues m) c) items @ dialogues m"
proof -
  from import_try_valid [OF assms(3,4,5,6)] obtain m' where
    "import_try J t m = Inr m'"
    "dialogues m' = filter (\<lambda>c. \<not> id_exists (dialogues m) c) items @ dialogues m"
    by blast
  then show ?thesis
    using assms(1,2) by (simp add: handleFileImport_def onload_def)
qed

theorem import_malformed_rejected_witness:
  "ftext (json_file malformed_text) = Some malformed_text \<and>
   parse (json_tables [(malformed_text, malformed_batch)] [] []) malformed_text = Some malformed_batch \<and>
   malformed malformed_batch \<and>
   dialogues (handleFileImport (json_tables [(malformed_text, malformed_batch)] [] [])
                (Some (json_file malformed_text)) ((fresh 100)\<lparr>dialogues := two_records\<rparr>))
     = two_records"
proof -
  have p: "parse (json_tables [(malformed_text, malformed_batch)] [] []) malformed_text
             = Some malformed_batch"
    by simp
  have b: "malformed malformed_batch"
    by (simp add: malformed_batch_def) (simp add: js_def)
  show ?thesis
    using p b import_malformed_rejected [OF json_file_simps(2) p b,
        where m = "(fresh 100)\<lparr>dialogues := two_records\<rparr>"]
    by simp
qed

lemma handleFileImport_too_many:
  assumes "ftype f = js ''application/json''" and "ftext f = Some t"
    and "parse J t = Some (JArr items)" and "list_all structurally_valid items"
    and "JNull \<notin> set (dialogues m)"
    and "max_arguments J < length (filter (\<lambda>c. \<not> id_exists (dialogues m) c) items)"
  shows "handleFileImport J (Some f) m
           = showMessage (FileImportFailed RangeError) Error
               (console_error (ImportFailed RangeError) m)"
  using assms(1,2) import_try_too_many [OF assms(3,4,5,6)]
  by (simp add: handleFileImport_def onload_def)

text \<open>
  Above the limit of the engine nothing is imported: on the empty store, the sequence of
  65537 candidates is answered with the failure notice.
\<close>

lemma large_batch_rejected:
  "handleFileImport (json_tables [(large_batch_text, JArr large_batch)] [] [])
       (Some (json_file large_batch_text)) (fresh 5000000)
     = \<lparr>dialogues = [], storage = \<lparr>slot = None, quota = 5000000\<rparr>,
        console = [ImportFailed RangeError],
        messages = [(FileImportFailed RangeError, Error)]\<rparr>"
proof -
  let ?J = "json_tables [(large_batch_text, JArr large_batch)] [] []"
  have p: "parse ?J large_batch_text = Some (JArr large_batch)"
    by simp
  have v: "list_all structurally_valid large_batch"
    by (simp add: large_batch_def list_all_iff)
  have n: "JNull \<notin> set (dialogues (fresh 5000000))"
    by (simp add: fresh_def)
  have "filter (\<lambda>c. \<not> id_exists (dialogues (fresh 5000000)) c) large_batch = large_batch"
    by (simp add: fresh_def id_exists_def)
  then have l: "max_arguments ?J
      < length (filter (\<lambda>c. \<not> id_exists (dialogues (fresh 5000000)) c) large_batch)"
    by (simp add: large_batch_def)
  show ?thesis
    using handleFileImport_too_many [OF json_file_simps p v n l]
    by (simp add: fresh_def showMessage_def console_error_def)
qed

text \<open>
  Claim C8. For a file whose text parses to a sequence of structurally valid candidates,
  and a store that holds records (no \<open>null\<close> entry), the sequence after \<open>handleFileImport\<close>
  is the candidates whose id does not yet exist in the store, in their order in the batch,
  followed by the previous sequence in its previous order, as long as those candidates are
  no more than the engine accepts as the arguments of one call.
\<close>

theorem import_prepends:
  assumes "ftype f = js ''application/json''" and "ftext f = Some t"
    and "parse J t = Some (JArr items)" and "list_all structurally_valid items"
    and "JNull \<notin> set (dialogues m)"
    and "length (filter (\<lambda>c. \<not> id_exists (dialogues m) c) items) \<le> max_arguments J"
  shows "dialogues (handleFileImport J (Some f) m)
           = filter (\<lambda>c. \<not> id_exists (dialogues m) c) items @ dialogues m"
  using assms by (rule handleFileImport_valid)

theorem import_prepends_witness:
  "ftype (json_file batch_text) = js ''application/json'' \<and>
   ftext (json_file batch_text) = Some batch_text \<and>
   parse (json_tables [(batch_text, JArr batch)] [] []) batch_text = Some (JArr batch) \<and>
   list_all structurally_valid batch \<and>
   JNull \<notin> set (dialogues ((fresh 100)\<lparr>dialogues := two_records\<rparr>)) \<and>
   length (filter (\<lambda>c. \<not> id_exists (dialogues ((fresh 100)\<lparr>dialogues := two_records\<rparr>)) c) batch)
     \<le> max_arguments (json_tables [(batch_text, JArr batch)] [] []) \<and>
   dialogues (handleFileImport (json_tables [(batch_text, JArr batch)] [] [])
                (Some (json_file batch_text)) ((fresh 100)\<lparr>dialogues := two_records\<rparr>))
     = [sample (js ''2'') (js ''b''), sample (js ''3'') (js ''c''),
        sample (js ''1'') (js ''a''), sample (js ''9'') (js ''q'')]"
proof -
  have p: "parse (json_tables [(batch_text, JArr batch)] [] []) batch_text = Some (JArr batch)"
    by simp
  have v: "list_all structurally_valid batch"
    by (simp add: batch_def)
  have n: "JNull \<notin> set (dialogues ((fresh 100)\<lparr>dialogues := two_records\<rparr>))"
    by (simp add: two_records_def)
  have l: "length (filter (\<lambda>c. \<not> id_exists (dialogues ((fresh 100)\<lparr>dialogues := two_records\<rparr>)) c) batch)
             \<le> max_arguments (json_tables [(batch_text, JArr batch)] [] [])"
    by (simp add: batch_def)
  show ?thesis
    using p v n l import_prepends [OF json_file_simps p v n l]
    by (simp add: batch_def two_records_def id_exists_def) (simp add: js_def)
qed

lemma exportData_nonempty:
  "dialogues m \<noteq> [] \<Longrightarrow> fst (exportData J m) = Some (stringify_indent J (JArr (dialogues m)))"
  by (simp add: exportData_def)

text \<open>
  Claim C2. Let \<open>S\<close> be a non-empty sequence of structurally valid records, no longer than
  the engine accepts as the arguments of one call, and let \<open>JSON.parse\<close> read the indented
  text of \<open>S\<close> back as \<open>S\<close>. Then \<open>exportData\<close> on a store holding \<open>S\<close> produces a text, and
  importing a JSON file with that text into an empty store gives a store whose sequence is
  \<open>S\<close>, in the same order.
\<close>

theorem export_import_roundtrip:
  assumes "S \<noteq> []" and "list_all structurally_valid S"
    and "parse J (stringify_indent J (JArr S)) = Some (JArr S)"
    and "length S \<le> max_arguments J"
    and "dialogues m = S" and "dialogues m0 = []"
  shows "\<exists>txt. fst (exportData J m) = Some txt \<and>
           dialogues (handleFileImport J (Some (json_file txt)) m0) = S"
proof -
  let ?txt = "stringify_indent J (JArr S)"
  have e: "fst (exportData J m) = Some ?txt"
    using assms(1,5) exportData_nonempty [of m J] by simp
  have n: "JNull \<notin> set (dialogues m0)"
    by (simp add: assms(6))
  have f: "filter (\<lambda>c. \<not> id_exists (dialogues m0) c) S = S"
    by (simp add: assms(6) id_exists_def)
  have l: "length (filter (\<lambda>c. \<not> id_exists (dialogues m0) c) S) \<le> max_arguments J"
    using assms(4) by (simp only: f)
  have "dialogues (handleFileImport J (Some (json_file ?txt)) m0)
          = filter (\<lambda>c. \<not> id_exists (dialogues m0) c) S @ dialogues m0"
    using json_file_simps assms(3,2) n l by (rule handleFileImport_valid)
  with f have "dialogues (handleFileImport J (Some (json_file ?txt)) m0) = S"
    by (simp add: assms(6))
  with e show ?thesis by blast
qed

theorem export_import_roundtrip_witness:
  "two_records \<noteq> [] \<and> list_all structurally_valid two_records \<and>
   parse (json_tables [(two_records_export, JArr two_records)] []
            [(JArr two_records, two_records_export)])
     (stringify_indent (json_tables [(two_records_export, JArr two_records)] []
            [(JArr two_records, two_records_export)]) (JArr two_records))
     = Some (JArr two_records) \<and>
   length two_records \<le> max_arguments (json_tables [(two_records_export, JArr two_records)] []
            [(JArr two_records, two_records_export)]) \<and>
   dialogues ((fresh 100)\<lparr>dialogues := two_records\<rparr>) = two_records \<and>
   dialogues (fresh 100) = [] \<and>
   (\<exists>txt. fst (exportData (json_tables [(two_records_export, JArr two_records)] []
                   [(JArr two_records, two_records_export)])
                 ((fresh 100)\<lparr>dialogues := two_records\<rparr>)) = Some txt \<and>
          dialogues (handleFileImport (json_tables [(two_records_export, JArr two_records)] []
                   [(JArr two_records, two_records_export)]) (Some (json_file txt)) (fresh 100))
            = two_records)"
proof -
  let ?J = "json_tables [(two_records_export, JArr two_records)] []
              [(JArr two_records, two_records_export)]"
  have s: "two_records \<noteq> []"
    by (simp add: two_records_def)
  have v: "list_all structurally_valid two_records"
    by (simp add: two_records_def)
  have p: "parse ?J (stringify_indent ?J (JArr two_records)) = Some (JArr two_records)"
    by (simp add: json_tables_def)
  have l: "length two_records \<le> max_arguments ?J"
    by (simp add: two_records_def)
  have d: "dialogues ((fresh 100)\<lparr>dialogues := two_records\<rparr>) = two_records"
    by simp
  have z: "dialogues (fresh 100) = []"
    by (simp add: fresh_def)
  show ?thesis
    using s v p l d z export_import_roundtrip [OF s v p l d z] by blast
qed

section \<open>Deleting a dialogue\<close>


lemma filter_other_ids_subset: "filter_other_ids i ds = Inr ds' \<Longrightarrow> set ds' \<subseteq> set ds"
proof (induction ds arbitrary: ds')
  case Nil
  then show ?case by simp
next
  case (Cons d ds)
  then show ?case by (auto split: sum.splits if_splits)
qed




section \<open>Persisting\<close>




section \<open>Loading\<close>

text \<open>
  Claim C6 fails on the code: a stored text that is valid JSON but not an array, here
  \<open>{}\<close>, is returned as it parses, with nothing logged; the store does not start from an
  empty sequence.
\<close>

theorem loadDialogues_not_array:
  "loadDialogues (json_tables [(js ''{}'', JObj [])] [] []) \<lparr>slot = Some (js ''{}''), quota = 5000000\<rparr>
     = (JObj [], [])"
  by (simp add: loadDialogues_def getItem_def json_tables_def) (simp add: js_def)

section \<open>Ids\<close>

text \<open>
  Claim C1 fails on the code: two calls of \<open>addDialogue\<close> that read the same value of
  \<open>Date.now()\<close> store two records with the same id.
\<close>

theorem same_millisecond_same_id:
  "ids (dialogues (run (json_tables [] [] [])
          [Append (js ''user'') (js ''a'') [] 1700000000000 (js ''t''),
           Append (js ''user'') (js ''b'') [] 1700000000000 (js ''t'')] (fresh 5000000)))
     = [Inr (Some (JStr (toString 1700000000000))), Inr (Some (JStr (toString 1700000000000)))] \<and>
   \<not> distinct (ids (dialogues (run (json_tables [] [] [])
          [Append (js ''user'') (js ''a'') [] 1700000000000 (js ''t''),
           Append (js ''user'') (js ''b'') [] 1700000000000 (js ''t'')] (fresh 5000000))))"
  using js_nonempty by (simp add: addDialogue_def trim_a trim_b ids_def fresh_def)

section \<open>Dialogues are not blank\<close>

lemma dialogue_not_blank_newDialogue:
  "trim dialogueText \<noteq> [] \<Longrightarrow>
   dialogue_not_blank (newDialogue role dialogueText thinkText now stamp)"
  by (simp add: dialogue_not_blank_def trim_not_blank)

lemma addDialogue_keeps_not_blank:
  assumes "list_all dialogue_not_blank (dialogues m)"
  shows "list_all dialogue_not_blank
           (dialogues (snd (addDialogue J role dialogueText thinkText now stamp m)))"
  using assms by (simp add: addDialogue_def dialogue_not_blank_newDialogue)

lemma deleteDialogue_keeps_not_blank:
  assumes "list_all dialogue_not_blank (dialogues m)"
    and "deleteDialogue J i confirmed m = Inr m'"
  shows "list_all dialogue_not_blank (dialogues m')"
proof (cases confirmed)
  case False
  with assms show ?thesis by (simp add: deleteDialogue_def)
next
  case True
  with assms(2) obtain ds where ds: "filter_other_ids i (dialogues m) = Inr ds"
    and m': "dialogues m' = ds"
    by (auto simp: deleteDialogue_def split: sum.splits)
  from filter_other_ids_subset [OF ds] assms(1) show ?thesis
    by (auto simp: m' list_all_iff)
qed

lemma onload_keeps_not_blank:
  assumes "list_all dialogue_not_blank (dialogues m)"
    and "\<And>items. parse J t = Some (JArr items) \<Longrightarrow> list_all dialogue_not_blank items"
  shows "list_all dialogue_not_blank (dialogues (onload J t m))"
proof (cases "import_try J t m")
  case (Inl e)
  with assms(1) show ?thesis by (simp add: onload_def)
next
  case (Inr m')
  from import_try_Inr [OF Inr] obtain items vs where
    p: "parse J t = Some (JArr items)" and
    d: "dialogues m' = filter (is_new vs) items @ dialogues m"
    by blast
  from assms(2) [OF p] assms(1) show ?thesis
    by (auto simp: onload_def Inr d list_all_iff)
qed

lemma handleFileImport_keeps_not_blank:
  assumes "list_all dialogue_not_blank (dialogues m)" and "offers_no_blank J (ImportBatch f)"
  shows "list_all dialogue_not_blank (dialogues (handleFileImport J f m))"
proof (cases f)
  case None
  with assms(1) show ?thesis by (simp add: handleFileImport_def)
next
  case (Some fl)
  show ?thesis
  proof (cases "ftext fl")
    case None
    with assms(1) Some show ?thesis by (simp add: handleFileImport_def)
  next
    case (Some t)
    have "\<And>items. parse J t = Some (JArr items) \<Longrightarrow> list_all dialogue_not_blank items"
      using assms(2) \<open>f = Some fl\<close> Some by simp
    with assms(1) have "list_all dialogue_not_blank (dialogues (onload J t m))"
      by (rule onload_keeps_not_blank)
    with assms(1) \<open>f = Some fl\<close> Some show ?thesis by (simp add: handleFileImport_def)
  qed
qed

lemma apply_op_keeps_not_blank:
  assumes "list_all dialogue_not_blank (dialogues m)" and "offers_no_blank J op"
  shows "list_all dialogue_not_blank (dialogues (apply_op J op m))"
proof (cases op)
  case (Append role dialogueText thinkText now stamp)
  with assms(1) show ?thesis by (simp add: addDialogue_keeps_not_blank)
next
  case (Delete i confirmed)
  with assms(1) show ?thesis
    by (auto split: sum.splits dest: deleteDialogue_keeps_not_blank)
next
  case (ImportBatch f)
  with assms show ?thesis by (simp add: handleFileImport_keeps_not_blank)
next
  case Export
  with assms(1) show ?thesis by (simp add: exportData_def)
next
  case (Clear confirmed)
  with assms(1) show ?thesis by (simp add: clearAllData_def)
qed

text \<open>
  Claim C4, as amended. Starting from a store in which every record has a dialogue that is
  a text and not blank (the empty store, for one), every sequence of appends, deletions,
  exports, clears and imports keeps that property, provided each imported sequence offers
  only candidates whose dialogue is not blank. The import itself checks only that
  \<open>dialogue\<close> is a text.
\<close>

theorem dialogue_not_blank_invariant:
  assumes "list_all dialogue_not_blank (dialogues m)" and "list_all (offers_no_blank J) ops"
  shows "list_all dialogue_not_blank (dialogues (run J ops m))"
  using assms
proof (induction ops arbitrary: m)
  case Nil
  then show ?case by simp
next
  case (Cons op ops)
  from Cons.prems have "list_all dialogue_not_blank (dialogues (apply_op J op m))"
    by (simp add: apply_op_keeps_not_blank)
  with Cons.IH Cons.prems(2) show ?case by simp
qed

lemma dialogue_not_blank_sample: "dialogue_not_blank (sample i d) = (\<not> blank d)"
  by (simp add: dialogue_not_blank_def)

theorem dialogue_not_blank_invariant_witness:
  "list_all dialogue_not_blank (dialogues (fresh 5000000)) \<and>
   list_all (offers_no_blank (json_tables [(batch_text, JArr batch)] [] []))
     [Append (js ''user'') (js '' hi '') [] 5 (js ''t''),
      ImportBatch (Some (json_file batch_text)),
      Delete (js ''2'') True] \<and>
   list_all dialogue_not_blank
     (dialogues (run (json_tables [(batch_text, JArr batch)] [] [])
        [Append (js ''user'') (js '' hi '') [] 5 (js ''t''),
         ImportBatch (Some (json_file batch_text)),
         Delete (js ''2'') True] (fresh 5000000)))"
proof -
  have i: "list_all dialogue_not_blank (dialogues (fresh 5000000))"
    by (simp add: fresh_def)
  have b: "\<not> blank (js ''b'')" "\<not> blank (js ''z'')" "\<not> blank (js ''c'')"
    by (simp_all add: blank_def js_def isWhiteSpace_def)
  have o: "list_all (offers_no_blank (json_tables [(batch_text, JArr batch)] [] []))
     [Append (js ''user'') (js '' hi '') [] 5 (js ''t''),
      ImportBatch (Some (json_file batch_text)),
      Delete (js ''2'') True]"
    by (simp add: batch_def dialogue_not_blank_sample b)
  show ?thesis
    using i o dialogue_not_blank_invariant [OF i o] by simp
qed

text \<open>
  Claim C4 as stated fails: a candidate whose dialogue is the empty text passes the check
  of \<open>handleFileImport\<close> and is stored.
\<close>

theorem import_blank_dialogue_counterexample:
  "dialogues (run (json_tables [(blank_text, JArr blank_batch)] [(JArr blank_batch, blank_text)] [])
      [ImportBatch (Some (json_file blank_text))] (fresh 5000000)) = [sample (js ''1'') []] \<and>
   \<not> dialogue_not_blank (sample (js ''1'') [])"
proof -
  have "import_try (json_tables [(blank_text, JArr blank_batch)] [(JArr blank_batch, blank_text)] [])
          blank_text (fresh 5000000)
        = Inr (showMessage (Imported 1) Success
            (saveDialogues (json_tables [(blank_text, JArr blank_batch)] [(JArr blank_batch, blank_text)] [])
               ((fresh 5000000)\<lparr>dialogues := blank_batch\<rparr>)))"
    by (simp add: import_try_def isValid_structurally_valid Let_def blank_batch_def fresh_def is_new_def)
  then show ?thesis
    by (simp add: handleFileImport_def onload_def blank_batch_def dialogue_not_blank_sample blank_def)
qed

end
